theory Spec2Isabelle
  imports Complex_Main "HOL-Library.Multiset"
begin

section \<open>The JavaScript runtime, as far as WebsiteAudit uses it\<close>

text \<open>
  Strings are lists of code units; the model covers the code units below 256, where
  \<open>\s\<close> matches tab, line feed, vertical tab, form feed, carriage return, space and the
  no-break space.
\<close>

definition js_space :: "char \<Rightarrow> bool" where
  "js_space c = (let n = (of_char c :: nat) in (9 \<le> n \<and> n \<le> 13) \<or> n = 32 \<or> n = 160)"

text \<open>
  \<open>text.split(/[set]+/)\<close>: the pieces between the maximal runs of separator characters. A
  separator run at either end leaves an empty piece there, and the empty string splits
  into one empty piece, so the array is never empty.
\<close>

fun js_split :: "(char \<Rightarrow> bool) \<Rightarrow> string \<Rightarrow> string list" where
  "js_split sep [] = [[]]"
| "js_split sep (c # cs) =
     (if sep c then
        (case cs of
           [] \<Rightarrow> [[], []]
         | d # ds \<Rightarrow> if sep d then js_split sep cs else [] # js_split sep cs)
      else
        (case js_split sep cs of
           [] \<Rightarrow> [[c]]
         | w # ws \<Rightarrow> (c # w) # ws))"

text \<open>\<open>String.prototype.trim\<close>, \<open>toLowerCase\<close> (on the ASCII letters) and \<open>startsWith\<close>.\<close>

definition js_trim :: "string \<Rightarrow> string" where
  "js_trim s = rev (dropWhile js_space (rev (dropWhile js_space s)))"

definition lower_char :: "char \<Rightarrow> char" where
  "lower_char c =
     (case map_of (zip ''ABCDEFGHIJKLMNOPQRSTUVWXYZ'' ''abcdefghijklmnopqrstuvwxyz'') c of
        None \<Rightarrow> c
      | Some l \<Rightarrow> l)"

definition toLowerCase :: "string \<Rightarrow> string" where
  "toLowerCase s = map lower_char s"

definition startsWith :: "string \<Rightarrow> string \<Rightarrow> bool" where
  "startsWith s p = (take (length p) s = p)"

text \<open>
  Numbers. A JavaScript number is NaN, an infinity or a finite double, and a finite
  double is a rational. An operation on finite doubles gives the double nearest to the
  exact result, and a decimal literal stands for the double nearest to it; which double
  that is belongs to the runtime, so the rounding is a parameter \<open>rnd\<close> of the
  operations. The operands of this program are counts, scores between 0 and 1 and four
  constants, so no operation leaves the finite range.
\<close>

datatype jsnum = NaN | PosInfinity | NegInfinity | Fin rat

definition fp_mul :: "(rat \<Rightarrow> rat) \<Rightarrow> rat \<Rightarrow> rat \<Rightarrow> rat" where
  "fp_mul rnd a b = rnd (a * b)"

definition fp_add :: "(rat \<Rightarrow> rat) \<Rightarrow> rat \<Rightarrow> rat \<Rightarrow> rat" where
  "fp_add rnd a b = rnd (a + b)"

definition fp_sub :: "(rat \<Rightarrow> rat) \<Rightarrow> rat \<Rightarrow> rat \<Rightarrow> rat" where
  "fp_sub rnd a b = rnd (a - b)"

definition fp_div :: "(rat \<Rightarrow> rat) \<Rightarrow> rat \<Rightarrow> rat \<Rightarrow> rat" where
  "fp_div rnd a b = rnd (a / b)"

fun js_div :: "(rat \<Rightarrow> rat) \<Rightarrow> jsnum \<Rightarrow> jsnum \<Rightarrow> jsnum" where
  "js_div rnd (Fin a) (Fin b) =
     (if b = 0 then (if a = 0 then NaN else if 0 < a then PosInfinity else NegInfinity)
      else Fin (fp_div rnd a b))"
| "js_div rnd (Fin a) PosInfinity = Fin 0"
| "js_div rnd (Fin a) NegInfinity = Fin 0"
| "js_div rnd PosInfinity (Fin b) = (if 0 \<le> b then PosInfinity else NegInfinity)"
| "js_div rnd NegInfinity (Fin b) = (if 0 \<le> b then NegInfinity else PosInfinity)"
| "js_div rnd x y = NaN"

fun js_mul :: "(rat \<Rightarrow> rat) \<Rightarrow> jsnum \<Rightarrow> jsnum \<Rightarrow> jsnum" where
  "js_mul rnd (Fin a) (Fin b) = Fin (fp_mul rnd a b)"
| "js_mul rnd PosInfinity (Fin b) =
     (if b = 0 then NaN else if 0 < b then PosInfinity else NegInfinity)"
| "js_mul rnd NegInfinity (Fin b) =
     (if b = 0 then NaN else if 0 < b then NegInfinity else PosInfinity)"
| "js_mul rnd (Fin a) PosInfinity =
     (if a = 0 then NaN else if 0 < a then PosInfinity else NegInfinity)"
| "js_mul rnd (Fin a) NegInfinity =
     (if a = 0 then NaN else if 0 < a then NegInfinity else PosInfinity)"
| "js_mul rnd PosInfinity PosInfinity = PosInfinity"
| "js_mul rnd NegInfinity NegInfinity = PosInfinity"
| "js_mul rnd PosInfinity NegInfinity = NegInfinity"
| "js_mul rnd NegInfinity PosInfinity = NegInfinity"
| "js_mul rnd x y = NaN"

fun js_sub :: "(rat \<Rightarrow> rat) \<Rightarrow> jsnum \<Rightarrow> jsnum \<Rightarrow> jsnum" where
  "js_sub rnd (Fin a) (Fin b) = Fin (fp_sub rnd a b)"
| "js_sub rnd PosInfinity (Fin b) = PosInfinity"
| "js_sub rnd NegInfinity (Fin b) = NegInfinity"
| "js_sub rnd (Fin a) PosInfinity = NegInfinity"
| "js_sub rnd (Fin a) NegInfinity = PosInfinity"
| "js_sub rnd PosInfinity NegInfinity = PosInfinity"
| "js_sub rnd NegInfinity PosInfinity = NegInfinity"
| "js_sub rnd x y = NaN"

text \<open>
  \<open>Math.round\<close> on a finite value: the nearest integer, a tie going up. It is exact: the
  result is an integer and needs no rounding.
\<close>

definition Math_round :: "rat \<Rightarrow> int" where
  "Math_round q = \<lfloor>q + 1 / 2\<rfloor>"

text \<open>
  \<open>Number.prototype.toFixed(2)\<close>. A value that is not finite is rendered by name. A finite
  one loses its sign first; a magnitude of at least \<open>10^21\<close> is handed to the runtime's
  \<open>Number::toString\<close> (the parameter \<open>toStr\<close>); any other magnitude \<open>x\<close> becomes the integer
  \<open>n\<close> nearest to \<open>100 * x\<close> (the larger one on a tie), written in decimal digits, padded
  with zeros to three digits at least, with the point before the last two.
\<close>

definition digit_char :: "nat \<Rightarrow> char" where
  "digit_char d = ''0123456789'' ! (d mod 10)"

fun decimal :: "nat \<Rightarrow> string" where
  "decimal n = (if n < 10 then [digit_char n] else decimal (n div 10) @ [digit_char (n mod 10)])"

declare decimal.simps [simp del]

definition fixed2 :: "rat \<Rightarrow> string" where
  "fixed2 x =
     (let n = nat \<lfloor>x * 100 + 1 / 2\<rfloor>;
          m = decimal n;
          m = (if length m \<le> 2 then replicate (3 - length m) (CHR ''0'') @ m else m);
          k = length m
      in take (k - 2) m @ ''.'' @ drop (k - 2) m)"

definition toFixed2 :: "(rat \<Rightarrow> string) \<Rightarrow> jsnum \<Rightarrow> string" where
  "toFixed2 toStr x =
     (case x of
        NaN \<Rightarrow> ''NaN''
      | PosInfinity \<Rightarrow> ''Infinity''
      | NegInfinity \<Rightarrow> ''-Infinity''
      | Fin q \<Rightarrow>
          (let s = (if q < 0 then ''-'' else '''');
               x = (if q < 0 then - q else q)
           in if 10 ^ 21 \<le> x then s @ toStr x else s @ fixed2 x))"

section \<open>The world outside the process\<close>

text \<open>
  What the libraries return is not code of this repository. The environment holds it: the
  outcome of \<open>axios.get\<close> for a URL (\<open>None\<close>: the promise rejects), of launching Chrome
  and of running Lighthouse (\<open>None\<close>: it throws), the answers of the parsed document to
  the selectors the code queries, \<open>new URL(link, base).href\<close> (\<open>None\<close>: the constructor
  throws a TypeError), Readability's verdict and extraction, \<open>Number::toString\<close>, and the
  double nearest to a real number.
  For the length of one audit the answer to a request depends on its URL only.
\<close>

record response =
  status :: nat
  data :: string

record category =
  score :: "rat option"

record categories =
  performance :: "category option"
  seo :: "category option"
  accessibility :: "category option"
  best_practices :: "category option"

record lhr =
  categories :: categories

text \<open>
  The answers of \<open>cheerio.load(html)\<close>. An attribute that is not there reads as undefined
  (\<open>None\<close>); \<open>.html()\<close> of an empty selection is null (\<open>None\<close>). The two \<open>.map(...).get()\<close>
  arrays are taken as arrays of string-or-undefined, in document order.
\<close>

record page =
  title_text :: string
  meta_description_content :: "string option"
  h1_length :: nat
  h2_length :: nat
  img_alt :: "string option list"
  canonical_href :: "string option"
  ld_json_html :: "string option"
  itemscope_length :: nat
  a_href :: "string option list"
  body_text :: string

record env =
  axios_get :: "string \<Rightarrow> response option"
  chrome_launch :: bool
  lighthouse :: "string \<Rightarrow> lhr option"
  cheerio_load :: "string \<Rightarrow> page"
  url_href :: "string \<Rightarrow> string \<Rightarrow> string option"
  isProbablyReaderable :: "string \<Rightarrow> bool"
  readability_parse :: "string \<Rightarrow> string option"
  number_toString :: "rat \<Rightarrow> string"
  nearest_double :: "rat \<Rightarrow> rat"

datatype js_error = ReferenceError string | TypeError string

fun message :: "js_error \<Rightarrow> string" where
  "message (ReferenceError m) = m"
| "message (TypeError m) = m"

text \<open>
  The readability field holds either the number the early return gives or the string
  \<open>toFixed\<close> gives.
\<close>

datatype score_value = NumberValue rat | StringValue string

record seoData =
  title :: string
  metaDescription :: string
  h1Count :: nat
  h2Count :: nat
  imageAltTags :: "string option list"
  canonicalLink :: string
  robotsTxt :: bool
  sitemap :: bool
  structuredData :: bool
  brokenLinks :: nat
  keywordDensity :: string
  readability :: score_value

record auditResult =
  url :: string
  lighthoeResults :: categories
  seoData :: seoData
  seoScore :: int

text \<open>
  What a run does, in order: the requests it sends, the browser it drives, the calls of
  the progress callback, and what it does to the HTTP response.
\<close>

datatype event = Progress string | Results auditResult | Error string

datatype action =
    HttpGet string
  | ChromeLaunch
  | LighthouseRun string
  | ChromeKill
  | Emit string
  | ResStatus nat
  | ResJson string
  | ResSetHeader string string
  | ResWrite event
  | ResEnd

section \<open>WebsiteAudit\<close>

text \<open>A string or undefined/null is truthy when it is a string that is not empty.\<close>

definition truthy :: "string option \<Rightarrow> bool" where
  "truthy v = (case v of None \<Rightarrow> False | Some s \<Rightarrow> s \<noteq> [])"

text \<open>\<open>v || ''\<close> for a string or undefined.\<close>

definition or_empty :: "string option \<Rightarrow> string" where
  "or_empty v = (case v of None \<Rightarrow> [] | Some s \<Rightarrow> s)"

text \<open>
  \<open>fetchHTML\<close>: one GET; a rejection is caught and becomes null. The body is returned as
  it is, so an empty body is the empty string.
\<close>

definition fetchHTML :: "env \<Rightarrow> string \<Rightarrow> string option \<times> action list" where
  "fetchHTML e u =
     (case axios_get e u of
        None \<Rightarrow> (None, [HttpGet u])
      | Some response \<Rightarrow> (Some (data response), [HttpGet u]))"

text \<open>
  \<open>runLighthouseAudit\<close>: launch, run, return \<open>result.lhr\<close>; any throw is caught and becomes
  null; Chrome is killed on the way out if it was launched.
\<close>

definition runLighthouseAudit :: "env \<Rightarrow> string \<Rightarrow> lhr option \<times> action list" where
  "runLighthouseAudit e u =
     (if chrome_launch e then (lighthouse e u, [ChromeLaunch, LighthouseRun u, ChromeKill])
      else (None, [ChromeLaunch]))"

definition checkRobotsTxt :: "env \<Rightarrow> string \<Rightarrow> bool \<times> action list" where
  "checkRobotsTxt e baseUrl =
     (let u = baseUrl @ ''/robots.txt'' in
      case axios_get e u of
        None \<Rightarrow> (False, [HttpGet u])
      | Some response \<Rightarrow> (status response = 200, [HttpGet u]))"

definition checkSitemap :: "env \<Rightarrow> string \<Rightarrow> bool \<times> action list" where
  "checkSitemap e baseUrl =
     (let u = baseUrl @ ''/sitemap.xml'' in
      case axios_get e u of
        None \<Rightarrow> (False, [HttpGet u])
      | Some response \<Rightarrow> (status response = 200, [HttpGet u]))"

definition checkStructuredData :: "env \<Rightarrow> string \<Rightarrow> bool" where
  "checkStructuredData e html =
     (let p = cheerio_load e html;
          jsonLd = ld_json_html p;
          microdata = (0 < itemscope_length p)
      in truthy jsonLd \<or> microdata)"

text \<open>
  \<open>findBrokenLinks\<close>. The filter keeps a link that is truthy and does not start with
  \<open>#\<close>. The loop resolves the link before its \<open>try\<close>, so a throw of \<open>new URL\<close> leaves the
  function; inside the \<open>try\<close>, a rejection or a status other than 200 adds one.
\<close>

definition keep_link :: "string option \<Rightarrow> bool" where
  "keep_link link = (truthy link \<and> \<not> startsWith (or_empty link) ''#'')"

fun probe_links ::
  "env \<Rightarrow> string \<Rightarrow> string list \<Rightarrow> nat \<Rightarrow> (js_error + nat) \<times> action list" where
  "probe_links e baseUrl [] broken = (Inr broken, [])"
| "probe_links e baseUrl (link # links) broken =
     (case url_href e link baseUrl of
        None \<Rightarrow> (Inl (TypeError ''Invalid URL''), [])
      | Some absoluteUrl \<Rightarrow>
          (let broken' =
                 (case axios_get e absoluteUrl of
                    None \<Rightarrow> broken + 1
                  | Some response \<Rightarrow>
                      if status response \<noteq> 200 then broken + 1 else broken);
               (r, acts) = probe_links e baseUrl links broken'
           in (r, HttpGet absoluteUrl # acts)))"

definition findBrokenLinks ::
  "env \<Rightarrow> string \<Rightarrow> string \<Rightarrow> (js_error + nat) \<times> action list" where
  "findBrokenLinks e html baseUrl =
     (let links = map or_empty (filter keep_link (a_href (cheerio_load e html)))
      in probe_links e baseUrl links 0)"

text \<open>\<open>calculateKeywordDensity\<close>: the words of the body text, those equal to the keyword.\<close>

definition targetKeyword :: string where
  "targetKeyword = ''example''"

definition calculateKeywordDensity :: "env \<Rightarrow> string \<Rightarrow> string" where
  "calculateKeywordDensity e html =
     (let text = body_text (cheerio_load e html);
          words = filter (\<lambda>word. 0 < length word) (js_split js_space text);
          keywordCount = length (filter (\<lambda>word. toLowerCase word = targetKeyword) words)
      in toFixed2 (number_toString e)
           (js_mul (nearest_double e)
              (js_div (nearest_double e) (Fin (of_nat keywordCount))
                 (Fin (of_nat (length words))))
              (Fin 100)))"

text \<open>
  \<open>calculateReadability\<close>. The number 0 is returned when the heuristic says no. The test
  \<open>if (!article)\<close> is on the Readability object, which is never falsy; \<open>parse()\<close> may
  return null, and reading \<open>textContent\<close> of null throws.
\<close>

definition is_sentence_end :: "char \<Rightarrow> bool" where
  "is_sentence_end c = (c \<in> set ''.!?'')"

definition is_vowel :: "char \<Rightarrow> bool" where
  "is_vowel c = (c \<in> set ''aeiouyAEIOUY'')"

definition readability_formula :: "(rat \<Rightarrow> rat) \<Rightarrow> string \<Rightarrow> jsnum" where
  "readability_formula rnd text =
     (let words = Fin (of_nat (length (js_split js_space text)));
          sentences = Fin (of_nat (length (js_split is_sentence_end text)));
          syllables = Fin (of_nat (length (filter is_vowel text)))
      in js_sub rnd
           (js_sub rnd (Fin (rnd (206835 / 1000)))
              (js_mul rnd (Fin (rnd (1015 / 1000))) (js_div rnd words sentences)))
           (js_mul rnd (Fin (rnd (846 / 10))) (js_div rnd syllables words)))"

definition calculateReadability :: "env \<Rightarrow> string \<Rightarrow> js_error + score_value" where
  "calculateReadability e html =
     (let canRead = isProbablyReaderable e html in
      if canRead then
        (case readability_parse e html of
           None \<Rightarrow> Inl (TypeError ''Cannot read properties of null (reading textContent)'')
         | Some text \<Rightarrow>
             (let readabilityScore =
                    toFixed2 (number_toString e) (readability_formula (nearest_double e) text)
              in Inr (StringValue readabilityScore)))
      else Inr (NumberValue 0))"

text \<open>
  \<open>analyzeOnPageSEO\<close>: the properties of the object literal are evaluated in the order
  written; a throw in one of them leaves the function.
\<close>

definition analyzeOnPageSEO ::
  "env \<Rightarrow> string \<Rightarrow> string \<Rightarrow> (js_error + seoData) \<times> action list" where
  "analyzeOnPageSEO e html baseUrl =
     (let p = cheerio_load e html;
          (robots, a1) = checkRobotsTxt e baseUrl;
          (smap, a2) = checkSitemap e baseUrl;
          (broken, a3) = findBrokenLinks e html baseUrl
      in case broken of
           Inl err \<Rightarrow> (Inl err, a1 @ a2 @ a3)
         | Inr n \<Rightarrow>
             (case calculateReadability e html of
                Inl err \<Rightarrow> (Inl err, a1 @ a2 @ a3)
              | Inr r \<Rightarrow>
                  (Inr \<lparr> title = js_trim (title_text p),
                         metaDescription = or_empty (meta_description_content p),
                         h1Count = h1_length p,
                         h2Count = h2_length p,
                         imageAltTags = img_alt p,
                         canonicalLink = or_empty (canonical_href p),
                         robotsTxt = robots,
                         sitemap = smap,
                         structuredData = checkStructuredData e html,
                         brokenLinks = n,
                         keywordDensity = calculateKeywordDensity e html,
                         readability = r \<rparr>,
                   a1 @ a2 @ a3)))"

text \<open>
  \<open>calculateOnPageSEOScore\<close>: five tests in a row, each adding 20 to the running score.
\<close>

definition calculateOnPageSEOScore :: "seoData \<Rightarrow> int" where
  "calculateOnPageSEOScore sd =
     (let score0 = 0;
          score1 = (if title sd \<noteq> [] then score0 + 20 else score0);
          score2 = (if metaDescription sd \<noteq> [] then score1 + 20 else score1);
          score3 = (if h1Count sd = 1 then score2 + 20 else score2);
          score4 = (if canonicalLink sd \<noteq> [] then score3 + 20 else score3);
          score5 = (if list_all truthy (imageAltTags sd) then score4 + 20 else score4)
      in score5)"

text \<open>
  \<open>generateSEOScore\<close>: \<open>lighthouseResults.categories.seo.score * 100\<close>. Reading \<open>score\<close> of a
  category that is not there throws; a null score counts as 0 in the product. The
  product, the sum and the quotient are operations on doubles.
\<close>

definition generateSEOScore :: "env \<Rightarrow> lhr \<Rightarrow> seoData \<Rightarrow> js_error + int" where
  "generateSEOScore e lighthouseResults sd =
     (case seo (categories lighthouseResults) of
        None \<Rightarrow> Inl (TypeError ''Cannot read properties of undefined (reading score)'')
      | Some c \<Rightarrow>
          (let rnd = nearest_double e;
               lighthouseSEOScore = fp_mul rnd (case score c of None \<Rightarrow> 0 | Some x \<Rightarrow> x) 100;
               onPageSEOScore = of_int (calculateOnPageSEOScore sd);
               overallScore = fp_div rnd (fp_add rnd lighthouseSEOScore onPageSEOScore) 2
           in Inr (Math_round overallScore)))"

text \<open>
  \<open>auditSiteWithProgress\<close>. The audit's result is bound to the name
  \<open>lightushouseResults\<close>; the statements after it read the name \<open>lighthouseResults\<close>. A
  name is looked up in the scope; one that no declaration binds raises a ReferenceError.
  The scope below holds the binding of the audit's result; the other names in scope
  (\<open>url\<close>, \<open>emitProgress\<close>, \<open>html\<close>, the imports of the module and the class) are not
  spelt \<open>lighthouseResults\<close> either.
\<close>

definition lookup_identifier :: "(string \<times> 'a) list \<Rightarrow> string \<Rightarrow> js_error + 'a" where
  "lookup_identifier scope name =
     (case map_of scope name of
        None \<Rightarrow> Inl (ReferenceError (name @ '' is not defined''))
      | Some v \<Rightarrow> Inr v)"

definition auditSiteWithProgress ::
  "env \<Rightarrow> string \<Rightarrow> (js_error + auditResult option) \<times> action list" where
  "auditSiteWithProgress e u =
     (let (html, a1) = fetchHTML e u;
          t1 = Emit ''Fetching HTML...'' # a1
      in if truthy html then
           (let (lightushouseResults, a2) = runLighthouseAudit e u;
                scope = [(''lightushouseResults'', lightushouseResults)];
                t2 = t1 @ Emit ''Running Lighthouse audit...'' # a2
            in case lookup_identifier scope ''lighthouseResults'' of
                 Inl err \<Rightarrow> (Inl err, t2)
               | Inr None \<Rightarrow> (Inr None, t2 @ [Emit ''Failed to run Lighthouse audit.''])
               | Inr (Some lighthouseResults) \<Rightarrow>
                   (let (analysis, a3) = analyzeOnPageSEO e (or_empty html) u;
                        t3 = t2 @ Emit ''Analyzing on-page SEO...'' # a3
                    in case analysis of
                         Inl err \<Rightarrow> (Inl err, t3)
                       | Inr sd \<Rightarrow>
                           (let t4 = t3 @ [Emit ''Calculating SEO score...'']
                            in case generateSEOScore e lighthouseResults sd of
                                 Inl err \<Rightarrow> (Inl err, t4)
                               | Inr n \<Rightarrow>
                                   (Inr (Some \<lparr> url = u,
                                                lighthoeResults = categories lighthouseResults,
                                                seoData = sd,
                                                seoScore = n \<rparr>),
                                    t4 @ [Emit ''Audit complete.'']))))
         else (Inr None, t1 @ [Emit ''Failed to fetch HTML.'']))"

text \<open>\<open>auditSite\<close>, the same pipeline without the callback; it returns the score alone.\<close>

definition auditSite :: "env \<Rightarrow> string \<Rightarrow> (js_error + int option) \<times> action list" where
  "auditSite e u =
     (let (html, a1) = fetchHTML e u
      in if truthy html then
           (let (lighthouseResults, a2) = runLighthouseAudit e u
            in case lighthouseResults of
                 None \<Rightarrow> (Inr None, a1 @ a2)
               | Some results \<Rightarrow>
                   (let (analysis, a3) = analyzeOnPageSEO e (or_empty html) u
                    in case analysis of
                         Inl err \<Rightarrow> (Inl err, a1 @ a2 @ a3)
                       | Inr sd \<Rightarrow>
                           (case generateSEOScore e results sd of
                              Inl err \<Rightarrow> (Inl err, a1 @ a2 @ a3)
                            | Inr n \<Rightarrow> (Inr (Some n), a1 @ a2 @ a3))))
         else (Inr None, a1))"

section \<open>The route\<close>

text \<open>
  The handler of \<open>/audit\<close> is written twice in the repository, statement for statement the
  same: inline in the server file that imports \<open>WebsiteAudit\<close>, and as
  \<open>auditWebsiteWithStreaming\<close> in \<open>routes/audit.js\<close>, a module that imports nothing.
  Without a site it answers with status 400 and a JSON body. Otherwise it sets three
  headers, constructs the audit, and, with the audit constructed, runs it with a callback
  that writes one progress event per call, writes one more event for the outcome (a
  thrown error is caught and its message written) and ends the response.
\<close>

definition sse_headers :: "action list" where
  "sse_headers =
     [ResSetHeader ''Content-Type'' ''text/event-stream'',
      ResSetHeader ''Cache-Control'' ''no-cache'',
      ResSetHeader ''Connection'' ''keep-alive'']"

definition emitProgress :: "action \<Rightarrow> action" where
  "emitProgress a = (case a of Emit m \<Rightarrow> ResWrite (Progress m) | _ \<Rightarrow> a)"

text \<open>From the callback to \<open>res.end()\<close>, for a constructed audit.\<close>

definition stream_audit :: "env \<Rightarrow> string \<Rightarrow> action list" where
  "stream_audit e site =
     (let (results, acts) = auditSiteWithProgress e site;
          outcome =
            (case results of
               Inl err \<Rightarrow> Error (message err)
             | Inr None \<Rightarrow> Error ''Audit failed.''
             | Inr (Some r) \<Rightarrow> Results r)
      in map emitProgress acts @ [ResWrite outcome, ResEnd])"

text \<open>The inline handler of the server file: the import binds \<open>WebsiteAudit\<close>.\<close>

definition audit_route_inline :: "env \<Rightarrow> string option \<Rightarrow> action list" where
  "audit_route_inline e site =
     (if truthy site then sse_headers @ stream_audit e (or_empty site)
      else [ResStatus 400, ResJson ''Site URL is required.''])"

text \<open>
  \<open>auditWebsiteWithStreaming\<close> of \<open>routes/audit.js\<close>. The names in scope are the function
  itself, its parameters and \<open>site\<close>; \<open>new WebsiteAudit()\<close> stands after the headers and
  before the \<open>try\<close>, so the ReferenceError of the unbound name leaves the handler: the
  result is the error and what was done to the response until then.
\<close>

definition route_scope :: "(string \<times> unit) list" where
  "route_scope =
     [(''auditWebsiteWithStreaming'', ()), (''req'', ()), (''res'', ()), (''site'', ())]"

definition auditWebsiteWithStreaming ::
  "env \<Rightarrow> string option \<Rightarrow> js_error option \<times> action list" where
  "auditWebsiteWithStreaming e site =
     (if truthy site then
        (case lookup_identifier route_scope ''WebsiteAudit'' of
           Inl err \<Rightarrow> (Some err, sse_headers)
         | Inr websiteAudit \<Rightarrow> (None, sse_headers @ stream_audit e (or_empty site)))
      else (None, [ResStatus 400, ResJson ''Site URL is required.'']))"

text \<open>
  The events written to the response, in order, and the messages handed to the progress
  callback.
\<close>

definition emitted :: "action list \<Rightarrow> string list" where
  "emitted acts = concat (map (\<lambda>a. case a of Emit m \<Rightarrow> [m] | _ \<Rightarrow> []) acts)"

definition events :: "action list \<Rightarrow> event list" where
  "events acts = concat (map (\<lambda>a. case a of ResWrite ev \<Rightarrow> [ev] | _ \<Rightarrow> []) acts)"

definition is_progress :: "event \<Rightarrow> bool" where
  "is_progress ev = (case ev of Progress m \<Rightarrow> True | _ \<Rightarrow> False)"

definition is_results :: "event \<Rightarrow> bool" where
  "is_results ev = (case ev of Results r \<Rightarrow> True | _ \<Rightarrow> False)"

section \<open>Notions the statements use\<close>

text \<open>The words of the visible body text, as \<open>calculateKeywordDensity\<close> splits them.\<close>

definition body_words :: "env \<Rightarrow> string \<Rightarrow> string list" where
  "body_words e html =
     filter (\<lambda>word. 0 < length word) (js_split js_space (body_text (cheerio_load e html)))"

text \<open>An alt text, or an href, that is there and is not the empty string.\<close>

definition present_nonempty :: "string option \<Rightarrow> bool" where
  "present_nonempty v = (v \<noteq> None \<and> v \<noteq> Some [])"

text \<open>
  The code counts a probe as broken when the request fails or answers with a status
  other than 200.
\<close>

definition probe_fails :: "env \<Rightarrow> string \<Rightarrow> bool" where
  "probe_fails e u =
     (case axios_get e u of None \<Rightarrow> True | Some response \<Rightarrow> status response \<noteq> 200)"

text \<open>
  The links that are checked: the hrefs that are there, are not empty and do not begin
  with \<open>#\<close>, in document order, repetitions kept.
\<close>

fun checked_links :: "string option list \<Rightarrow> string list" where
  "checked_links [] = []"
| "checked_links (None # hs) = checked_links hs"
| "checked_links (Some s # hs) =
     (if s = [] then checked_links hs
      else if hd s = CHR ''#'' then checked_links hs
      else s # checked_links hs)"

text \<open>
  The broken-link count in the words of the specification: every href of an anchor
  except those that begin with \<open>#\<close>, each resolved against the base URL and probed, those
  counted that fail or return a status that is not a success (not one of 200 to 299).
\<close>

definition non_success :: "env \<Rightarrow> string \<Rightarrow> bool" where
  "non_success e u =
     (case axios_get e u of
        None \<Rightarrow> True
      | Some response \<Rightarrow> status response < 200 \<or> 300 \<le> status response)"

fun specified_links :: "string option list \<Rightarrow> string list" where
  "specified_links [] = []"
| "specified_links (None # hs) = specified_links hs"
| "specified_links (Some s # hs) =
     (if take 1 s = ''#'' then specified_links hs else s # specified_links hs)"

definition specified_count :: "env \<Rightarrow> string option list \<Rightarrow> string \<Rightarrow> nat" where
  "specified_count e hrefs baseUrl =
     length (filter (\<lambda>link. case url_href e link baseUrl of
                               None \<Rightarrow> False
                             | Some absoluteUrl \<Rightarrow> non_success e absoluteUrl)
               (specified_links hrefs))"

text \<open>
  A decimal string with two fractional digits: an optional minus sign, one digit or more,
  a point, two digits.
\<close>

definition is_digit :: "char \<Rightarrow> bool" where
  "is_digit c = (c \<in> set ''0123456789'')"

definition unsigned_2_digits :: "string \<Rightarrow> bool" where
  "unsigned_2_digits body =
     (case rev body of
        d2 # d1 # p # ds \<Rightarrow>
          is_digit d2 \<and> is_digit d1 \<and> p = CHR ''.'' \<and> ds \<noteq> [] \<and> list_all is_digit ds
      | _ \<Rightarrow> False)"

definition decimal_2_digits :: "string \<Rightarrow> bool" where
  "decimal_2_digits s =
     (if take 1 s = ''-'' then unsigned_2_digits (drop 1 s) else unsigned_2_digits s)"

section \<open>Example inputs\<close>

text \<open>
  A page with nothing on it, and a world in which every request fails, Chrome does not
  start and no document is readable. The examples below change what they need. Where an
  example states a number (the scores 100 and 70), the values rounded on the way are
  integers up to 200, which are doubles, so the rounding of the examples leaves a number
  as it is; no example states a digit that depends on rounding.
\<close>

definition empty_page :: page where
  "empty_page = \<lparr> title_text = '''', meta_description_content = None, h1_length = 0,
     h2_length = 0, img_alt = [], canonical_href = None, ld_json_html = None,
     itemscope_length = 0, a_href = [], body_text = '''' \<rparr>"

definition offline :: env where
  "offline = \<lparr> axios_get = (\<lambda>u. None), chrome_launch = False, lighthouse = (\<lambda>u. None),
     cheerio_load = (\<lambda>html. empty_page), url_href = (\<lambda>link base. None),
     isProbablyReaderable = (\<lambda>html. False), readability_parse = (\<lambda>html. None),
     number_toString = (\<lambda>q. ''''), nearest_double = (\<lambda>q. q) \<rparr>"

text \<open>A page whose body text is the document itself.\<close>

definition plain_text :: env where
  "plain_text = offline \<lparr> cheerio_load := (\<lambda>html. empty_page \<lparr> body_text := html \<rparr>) \<rparr>"

text \<open>
  URL resolution on the links of the examples: a path is appended to the base, the empty
  reference is the base itself, an absolute URL stands, and \<open>http://[\<close> (an unclosed IPv6
  host) is refused.
\<close>

definition join_url :: "string \<Rightarrow> string \<Rightarrow> string option" where
  "join_url link base =
     (if link = ''http://['' then None
      else if take 1 link = ''/'' then Some (base @ link)
      else if link = [] then Some (base @ ''/'')
      else Some link)"

definition link_page :: "string option list \<Rightarrow> page" where
  "link_page hrefs = empty_page \<lparr> a_href := hrefs \<rparr>"

text \<open>
  Seven anchors: \<open>/a\<close> answers 200, \<open>/b\<close> answers 404, \<open>/c\<close> (twice) does not answer; one
  fragment link, one anchor without href and one with an empty href.
\<close>

definition seven_anchors :: env where
  "seven_anchors = offline \<lparr>
     axios_get := (\<lambda>u. if u = ''https://example.com/a'' then Some \<lparr> status = 200, data = '''' \<rparr>
                      else if u = ''https://example.com/b'' then Some \<lparr> status = 404, data = '''' \<rparr>
                      else None),
     cheerio_load := (\<lambda>html. link_page
        [Some ''/a'', Some ''#top'', Some ''/b'', None, Some ''/c'', Some '''', Some ''/c'']),
     url_href := join_url \<rparr>"

text \<open>The three links of the specification's example, and one dead link three times.\<close>

definition three_links :: env where
  "three_links = seven_anchors \<lparr>
     cheerio_load := (\<lambda>html. link_page [Some ''/a'', Some ''/b'', Some ''/c'']) \<rparr>"

definition repeated_link :: env where
  "repeated_link = seven_anchors \<lparr>
     cheerio_load := (\<lambda>html. link_page [Some ''/c'', Some ''/c'', Some ''/c'']) \<rparr>"

text \<open>One anchor with an empty href; no request is answered.\<close>

definition empty_href :: env where
  "empty_href = offline \<lparr> cheerio_load := (\<lambda>html. link_page [Some '''']), url_href := join_url \<rparr>"

text \<open>One anchor whose link answers 204 No Content.\<close>

definition no_content_link :: env where
  "no_content_link = offline \<lparr>
     axios_get := (\<lambda>u. if u = ''https://example.com/a'' then Some \<lparr> status = 204, data = '''' \<rparr>
                      else None),
     cheerio_load := (\<lambda>html. link_page [Some ''/a'']),
     url_href := join_url \<rparr>"

text \<open>One anchor whose href cannot be resolved.\<close>

definition bad_link :: env where
  "bad_link = offline \<lparr> cheerio_load := (\<lambda>html. link_page [Some ''http://['']),
     url_href := join_url \<rparr>"

text \<open>
  Two documents with the same working link; the first also has an anchor without href and
  one with an empty href.
\<close>

definition two_documents :: env where
  "two_documents = offline \<lparr>
     axios_get := (\<lambda>u. if u = ''https://example.com/a'' then Some \<lparr> status = 200, data = '''' \<rparr>
                      else None),
     cheerio_load := (\<lambda>html. if html = ''first'' then link_page [None, Some ''/a'', Some '''']
                             else link_page [Some ''/a'']),
     url_href := join_url \<rparr>"

text \<open>The data of the repository's test of the score, and a record that fails every check.\<close>

definition full_marks :: seoData where
  "full_marks = \<lparr> title = ''Test Title'', metaDescription = ''Test Description'', h1Count = 1,
     h2Count = 1, imageAltTags = [Some ''Test Alt''], canonicalLink = ''https://example.com'',
     robotsTxt = True, sitemap = True, structuredData = False, brokenLinks = 0,
     keywordDensity = ''0.00'', readability = NumberValue 0 \<rparr>"

definition no_marks :: seoData where
  "no_marks = \<lparr> title = '''', metaDescription = '''', h1Count = 2,
     h2Count = 0, imageAltTags = [Some ''logo'', None], canonicalLink = '''',
     robotsTxt = False, sitemap = False, structuredData = False, brokenLinks = 0,
     keywordDensity = ''0.00'', readability = NumberValue 0 \<rparr>"

text \<open>Lighthouse results without the seo category, and with all four.\<close>

definition seo_missing :: lhr where
  "seo_missing = \<lparr> categories = \<lparr> performance = Some \<lparr> score = Some (99 / 100) \<rparr>,
       seo = None,
       accessibility = Some \<lparr> score = Some (95 / 100) \<rparr>,
       best_practices = Some \<lparr> score = Some (92 / 100) \<rparr> \<rparr> \<rparr>"

definition four_categories :: lhr where
  "four_categories = \<lparr> categories = \<lparr> performance = Some \<lparr> score = Some (99 / 100) \<rparr>,
       seo = Some \<lparr> score = Some 1 \<rparr>,
       accessibility = Some \<lparr> score = Some (95 / 100) \<rparr>,
       best_practices = Some \<lparr> score = Some (92 / 100) \<rparr> \<rparr> \<rparr>"

text \<open>
  A site where everything works: the page is served, Chrome starts, Lighthouse answers.
  The page has a title and nothing else.
\<close>

definition healthy_site :: env where
  "healthy_site = offline \<lparr>
     axios_get := (\<lambda>u. Some \<lparr> status = 200, data = ''<html><title>Test Title</title></html>'' \<rparr>),
     chrome_launch := True,
     lighthouse := (\<lambda>u. Some four_categories),
     cheerio_load := (\<lambda>html. empty_page \<lparr> title_text := ''Test Title'' \<rparr>),
     url_href := join_url \<rparr>"

section \<open>Lemmas\<close>

lemma truthy_present: "truthy v = present_nonempty v"
  by (cases v) (simp_all add: truthy_def present_nonempty_def)

lemma keep_link_present: "keep_link h \<Longrightarrow> present_nonempty h"
  by (simp add: keep_link_def truthy_present)

lemma filter_keep_link_present:
  "filter keep_link (filter present_nonempty hs) = filter keep_link hs"
  by (induction hs) (auto dest: keep_link_present)

lemma kept_links: "map or_empty (filter keep_link hs) = checked_links hs"
proof (induction hs rule: checked_links.induct)
  case (3 s hs)
  then show ?case
    by (cases s) (simp_all add: keep_link_def truthy_def or_empty_def startsWith_def)
qed (simp_all add: keep_link_def truthy_def)

text \<open>
  The loop, when every link resolves: the counter grows by the number of probes that fail,
  and one request is sent per link, in order.
\<close>

lemma probe_links_count:
  "\<forall>link \<in> set links. url_href e link baseUrl = Some (r link) \<Longrightarrow>
   probe_links e baseUrl links n =
     (Inr (n + length (filter (\<lambda>link. probe_fails e (r link)) links)),
      map (\<lambda>link. HttpGet (r link)) links)"
proof (induction links arbitrary: n)
  case Nil
  show ?case by simp
next
  case (Cons link links)
  from Cons.prems have here: "url_href e link baseUrl = Some (r link)"
    and rest: "\<forall>l \<in> set links. url_href e l baseUrl = Some (r l)" by simp_all
  show ?case
    by (simp add: here Cons.IH [OF rest] probe_fails_def split: option.split)
qed

lemma findBrokenLinks_count:
  assumes "\<forall>link \<in> set (checked_links (a_href (cheerio_load e html))).
             url_href e link baseUrl = Some (r link)"
  shows "findBrokenLinks e html baseUrl =
     (Inr (length (filter (\<lambda>link. probe_fails e (r link))
                     (checked_links (a_href (cheerio_load e html))))),
      map (\<lambda>link. HttpGet (r link)) (checked_links (a_href (cheerio_load e html))))"
  using probe_links_count [OF assms, of 0] by (simp add: findBrokenLinks_def kept_links)

text \<open>The density is a function of two counts.\<close>

lemma density_by_counts:
  "calculateKeywordDensity e html =
     toFixed2 (number_toString e)
       (js_mul (nearest_double e)
          (js_div (nearest_double e)
             (Fin (of_nat (length (filter (\<lambda>word. toLowerCase word = targetKeyword)
                                     (body_words e html)))))
             (Fin (of_nat (length (body_words e html)))))
          (Fin 100))"
  unfolding calculateKeywordDensity_def body_words_def Let_def by (rule refl)

text \<open>What \<open>toFixed(2)\<close> writes for a magnitude below \<open>10^21\<close>.\<close>

lemma nth_digit_is_digit:
  assumes "k < 10"
  shows "is_digit (''0123456789'' ! k)"
proof -
  from assms have "k = 0 \<or> k = 1 \<or> k = 2 \<or> k = 3 \<or> k = 4 \<or> k = 5 \<or> k = 6 \<or> k = 7
      \<or> k = 8 \<or> k = 9"
    by arith
  then show ?thesis by (elim disjE) (simp_all add: is_digit_def)
qed

lemma digit_char_is_digit: "is_digit (digit_char d)"
  by (simp add: digit_char_def nth_digit_is_digit)

lemma decimal_digits: "list_all is_digit (decimal n) \<and> decimal n \<noteq> []"
proof (induction n rule: decimal.induct)
  case (1 n)
  show ?case
  proof (cases "n < 10")
    case True
    then show ?thesis by (simp add: decimal.simps [of n] digit_char_is_digit)
  next
    case False
    with 1 show ?thesis by (simp add: decimal.simps [of n] digit_char_is_digit)
  qed
qed

lemma unsigned_of_digits:
  assumes "list_all is_digit ds" and "ds \<noteq> []" and "is_digit d1" and "is_digit d2"
  shows "unsigned_2_digits (ds @ ''.'' @ [d1, d2])"
  using assms by (simp add: unsigned_2_digits_def)

lemma shape_of_padded:
  assumes "list_all is_digit m" and "3 \<le> length m"
  shows "unsigned_2_digits (take (length m - 2) m @ ''.'' @ drop (length m - 2) m)
         \<and> is_digit (hd (take (length m - 2) m @ ''.'' @ drop (length m - 2) m))"
proof -
  let ?a = "take (length m - 2) m" and ?b = "drop (length m - 2) m"
  have lb: "length ?b = 2" using assms(2) by simp
  then obtain d1 d2 where b: "?b = [d1, d2]"
    by (cases ?b) (auto simp: length_Suc_conv)
  have a: "?a \<noteq> []" using assms(2) by auto
  have all: "list_all is_digit (?a @ ?b)" using assms(1) by simp
  then have da: "list_all is_digit ?a" and db: "list_all is_digit ?b"
    by (simp_all only: list_all_append)
  from db b have d12: "is_digit d1" "is_digit d2" by simp_all
  have "unsigned_2_digits (?a @ ''.'' @ [d1, d2])"
    using da a d12 by (rule unsigned_of_digits)
  moreover have "is_digit (hd (?a @ ''.'' @ [d1, d2]))"
    using da a by (cases ?a) simp_all
  ultimately show ?thesis by (simp only: b)
qed

lemma fixed2_shape: "unsigned_2_digits (fixed2 x) \<and> is_digit (hd (fixed2 x))"
proof -
  define n where "n = nat \<lfloor>x * 100 + 1 / 2\<rfloor>"
  define m where "m = (if length (decimal n) \<le> 2
    then replicate (3 - length (decimal n)) (CHR ''0'') @ decimal n else decimal n)"
  have zero: "is_digit (CHR ''0'')" by (simp add: is_digit_def)
  have d: "list_all is_digit m"
    using decimal_digits [of n] by (simp add: m_def zero list_all_iff)
  have l: "3 \<le> length m" by (simp add: m_def)
  have "fixed2 x = take (length m - 2) m @ ''.'' @ drop (length m - 2) m"
    by (simp add: fixed2_def Let_def m_def n_def)
  with shape_of_padded [OF d l] show ?thesis by simp
qed

lemma fixed2_not_empty: "fixed2 x \<noteq> []"
  using fixed2_shape [of x] by (auto simp: unsigned_2_digits_def)

lemma fixed2_no_sign: "take 1 (fixed2 x) \<noteq> ''-''"
proof
  assume "take 1 (fixed2 x) = ''-''"
  then have "hd (fixed2 x) = CHR ''-''" using fixed2_not_empty [of x]
    by (cases "fixed2 x") simp_all
  then show False using fixed2_shape [of x] by (simp add: is_digit_def)
qed

lemma toFixed2_shape:
  assumes "\<bar>q\<bar> < 10 ^ 21"
  shows "decimal_2_digits (toFixed2 toStr (Fin q))"
proof (cases "q < 0")
  case True
  with assms have "toFixed2 toStr (Fin q) = ''-'' @ fixed2 (- q)"
    by (simp add: toFixed2_def Let_def)
  then show ?thesis using fixed2_shape [of "- q"] by (simp add: decimal_2_digits_def)
next
  case False
  with assms have "toFixed2 toStr (Fin q) = fixed2 q"
    by (simp add: toFixed2_def Let_def)
  then show ?thesis using fixed2_shape [of q] fixed2_no_sign [of q]
    by (simp add: decimal_2_digits_def)
qed

text \<open>
  A document judged readable, with an extracted text, gets a string; when the value of
  the formula has a magnitude below \<open>10^21\<close>, the string is a decimal with two fractional
  digits.
\<close>

lemma readable_score:
  assumes "isProbablyReaderable e html" and "readability_parse e html = Some content"
  shows "calculateReadability e html =
     Inr (StringValue (toFixed2 (number_toString e)
                         (readability_formula (nearest_double e) content)))"
  using assms by (simp add: calculateReadability_def)

lemma readable_score_shape:
  assumes "isProbablyReaderable e html" and "readability_parse e html = Some content"
    and "readability_formula (nearest_double e) content = Fin q" and "\<bar>q\<bar> < 10 ^ 21"
  shows "\<exists>s. calculateReadability e html = Inr (StringValue s) \<and> decimal_2_digits s"
  using readable_score [OF assms(1,2)] toFixed2_shape [OF assms(4), of "number_toString e"]
  by (simp add: assms(3))

text \<open>
  With the seo category there, the score is the rounded mean, computed in doubles, of its
  score times 100 (0 for a null score) and the checklist score; the data of the
  repository's test give 100, the numbers 100 and 200 being doubles.
\<close>

lemma generateSEOScore_present:
  "seo (categories l) = Some c \<Longrightarrow>
   generateSEOScore e l sd =
     Inr (Math_round
            (fp_div (nearest_double e)
               (fp_add (nearest_double e)
                  (fp_mul (nearest_double e) (case score c of None \<Rightarrow> 0 | Some x \<Rightarrow> x) 100)
                  (of_int (calculateOnPageSEOScore sd)))
               2))"
  by (simp add: generateSEOScore_def Let_def)

lemma generateSEOScore_full_marks:
  assumes "nearest_double e 100 = 100" and "nearest_double e 200 = 200"
  shows "generateSEOScore e four_categories full_marks = Inr 100"
  using assms
  by (simp add: generateSEOScore_def calculateOnPageSEOScore_def Let_def four_categories_def
      full_marks_def truthy_def Math_round_def floor_eq_iff fp_mul_def fp_add_def fp_div_def)

text \<open>
  On the site where everything works, \<open>auditSite\<close> returns a score: 100 from Lighthouse
  and 40 from the checklist (a title, no images) average to 70.
\<close>

lemma auditSite_healthy_site:
  "fst (auditSite healthy_site ''https://example.com'') = Inr (Some 70)"
  by (simp add: auditSite_def fetchHTML_def runLighthouseAudit_def analyzeOnPageSEO_def
      checkRobotsTxt_def checkSitemap_def findBrokenLinks_def calculateReadability_def
      generateSEOScore_def calculateOnPageSEOScore_def healthy_site_def offline_def
      empty_page_def four_categories_def truthy_def or_empty_def js_trim_def js_space_def
      Math_round_def floor_eq_iff Let_def fp_mul_def fp_add_def fp_div_def)

text \<open>
  What the analysis absorbs: when every checked link resolves and the readability
  extraction does not come back null, \<open>analyzeOnPageSEO\<close> returns its record, whatever the
  probes of robots.txt, sitemap.xml and the links answer.
\<close>

lemma calculateReadability_null_parse:
  "isProbablyReaderable e html \<Longrightarrow> readability_parse e html = None \<Longrightarrow>
   calculateReadability e html
     = Inl (TypeError ''Cannot read properties of null (reading textContent)'')"
  by (simp add: calculateReadability_def)

lemma analyzeOnPageSEO_returns:
  assumes "\<forall>link \<in> set (checked_links (a_href (cheerio_load e html))).
             url_href e link baseUrl = Some (r link)"
    and "isProbablyReaderable e html \<Longrightarrow> readability_parse e html \<noteq> None"
  shows "\<exists>sd. fst (analyzeOnPageSEO e html baseUrl) = Inr sd"
proof -
  have "\<exists>v. calculateReadability e html = Inr v"
  proof (cases "isProbablyReaderable e html")
    case True
    with assms(2) obtain content where "readability_parse e html = Some content" by auto
    with True show ?thesis by (simp add: calculateReadability_def)
  next
    case False
    then show ?thesis by (simp add: calculateReadability_def)
  qed
  then obtain v where v: "calculateReadability e html = Inr v" by blast
  show ?thesis
    by (simp add: analyzeOnPageSEO_def findBrokenLinks_count [OF assms(1)] v split_beta Let_def)
qed

text \<open>
  In the inline handler, every request with a site ends its stream with one event that
  is not a progress event, and ends the response after it.
\<close>

lemma events_Cons:
  "events (a # acts) = (case a of ResWrite ev \<Rightarrow> [ev] | _ \<Rightarrow> []) @ events acts"
  by (simp add: events_def)

lemma progress_only:
  assumes "\<forall>a \<in> set acts. \<forall>ev. a \<noteq> ResWrite ev"
  shows "\<exists>ps. events (map emitProgress acts) = map Progress ps"
  using assms
proof (induction acts)
  case Nil
  show ?case by (simp add: events_def)
next
  case (Cons a acts)
  then obtain ps where ps: "events (map emitProgress acts) = map Progress ps" by auto
  from Cons.prems have a: "\<forall>ev. a \<noteq> ResWrite ev" by simp
  have "events (map emitProgress (a # acts)) = map Progress ps
      \<or> (\<exists>m. events (map emitProgress (a # acts)) = map Progress (m # ps))"
    using a ps by (cases a) (simp_all add: events_Cons emitProgress_def)
  then show ?case by blast
qed

lemma audit_writes_nothing:
  "\<forall>a \<in> set (snd (auditSiteWithProgress e site)). \<forall>ev. a \<noteq> ResWrite ev"
  by (auto simp: auditSiteWithProgress_def fetchHTML_def runLighthouseAudit_def
      lookup_identifier_def split_beta Let_def split: option.splits if_splits)

lemma one_terminal_event:
  assumes "site \<noteq> []"
  shows "\<exists>ps t. events (audit_route_inline e (Some site)) = map Progress ps @ [t]
           \<and> \<not> is_progress t
           \<and> last (audit_route_inline e (Some site)) = ResEnd"
proof -
  let ?acts = "snd (auditSiteWithProgress e site)"
  let ?out = "case fst (auditSiteWithProgress e site) of
                Inl err \<Rightarrow> Error (message err)
              | Inr None \<Rightarrow> Error ''Audit failed.''
              | Inr (Some r) \<Rightarrow> Results r"
  have shape: "audit_route_inline e (Some site)
      = [ResSetHeader ''Content-Type'' ''text/event-stream'',
         ResSetHeader ''Cache-Control'' ''no-cache'',
         ResSetHeader ''Connection'' ''keep-alive'']
        @ map emitProgress ?acts @ [ResWrite ?out, ResEnd]"
    using assms
    by (simp add: audit_route_inline_def stream_audit_def sse_headers_def truthy_def
        or_empty_def split_beta)
  from progress_only [OF audit_writes_nothing] obtain ps
    where ps: "events (map emitProgress ?acts) = map Progress ps" by blast
  have out: "\<not> is_progress ?out"
    by (simp add: is_progress_def split: sum.split option.split)
  have "events (audit_route_inline e (Some site)) = map Progress ps @ [?out]"
    using ps unfolding shape by (simp add: events_def)
  moreover have "last (audit_route_inline e (Some site)) = ResEnd"
    unfolding shape by simp
  ultimately show ?thesis using out by blast
qed

section \<open>The claims\<close>

subsection \<open>The event stream\<close>

text \<open>
  C1. The claim: the progress events of the five stages come in order, each before its
  stage's work, one terminal event ends the stream, and on success that event carries
  the audit result. The code does not get that far, at two places. Whenever the page is
  fetched with a body that is not empty:
  \<^item> \<open>auditWebsiteWithStreaming\<close> sets the three headers and throws the ReferenceError of
    \<open>WebsiteAudit\<close>, which its module does not import: no event is written and the
    response is not ended;
  \<^item> \<open>auditSiteWithProgress\<close> calls the callback twice and throws the ReferenceError of
    \<open>lighthouseResults\<close>: the audit ran, its result is bound to another name;
  \<^item> so the inline handler, which has the class, writes the first two progress events
    and an error event with that message, and no results event, whatever Lighthouse
    returned.

  (On the same site \<open>auditSite\<close>, which reads the name it binds, returns a score:
  \<open>auditSite_healthy_site\<close>.)
\<close>

theorem stream_after_fetch:
  assumes "site \<noteq> []" and "axios_get e site = Some r" and "data r \<noteq> []"
  shows "auditWebsiteWithStreaming e (Some site)
           = (Some (ReferenceError ''WebsiteAudit is not defined''),
              [ResSetHeader ''Content-Type'' ''text/event-stream'',
               ResSetHeader ''Cache-Control'' ''no-cache'',
               ResSetHeader ''Connection'' ''keep-alive''])
         \<and> fst (auditSiteWithProgress e site)
           = Inl (ReferenceError ''lighthouseResults is not defined'')
         \<and> emitted (snd (auditSiteWithProgress e site))
           = [''Fetching HTML...'', ''Running Lighthouse audit...'']
         \<and> events (audit_route_inline e (Some site))
           = [Progress ''Fetching HTML...'', Progress ''Running Lighthouse audit...'',
              Error ''lighthouseResults is not defined'']"
  using assms
  by (simp add: auditWebsiteWithStreaming_def audit_route_inline_def stream_audit_def
      sse_headers_def route_scope_def auditSiteWithProgress_def fetchHTML_def truthy_def
      or_empty_def events_def emitted_def emitProgress_def runLighthouseAudit_def
      lookup_identifier_def)

theorem stream_after_fetch_witness:
  "runLighthouseAudit healthy_site ''https://example.com''
     = (Some four_categories,
        [ChromeLaunch, LighthouseRun ''https://example.com'', ChromeKill])
   \<and> auditWebsiteWithStreaming healthy_site (Some ''https://example.com'')
     = (Some (ReferenceError ''WebsiteAudit is not defined''),
        [ResSetHeader ''Content-Type'' ''text/event-stream'',
         ResSetHeader ''Cache-Control'' ''no-cache'',
         ResSetHeader ''Connection'' ''keep-alive''])
   \<and> events (audit_route_inline healthy_site (Some ''https://example.com''))
     = [Progress ''Fetching HTML...'', Progress ''Running Lighthouse audit...'',
        Error ''lighthouseResults is not defined'']"
  using stream_after_fetch [of "''https://example.com''" healthy_site
      "\<lparr> status = 200, data = ''<html><title>Test Title</title></html>'' \<rparr>"]
  by (simp add: healthy_site_def offline_def runLighthouseAudit_def)

text \<open>
  C2, as claimed: a failed fetch gives exactly one progress event before the error event.
  At the offline world the audit calls the progress callback twice, and the inline
  handler writes two progress events.
\<close>

theorem fetch_failure_two_progress_events:
  "axios_get offline ''https://example.com'' = None
   \<and> length (emitted (snd (auditSiteWithProgress offline ''https://example.com''))) = 2
   \<and> length (filter is_progress
               (events (audit_route_inline offline (Some ''https://example.com'')))) = 2"
  by (simp add: audit_route_inline_def stream_audit_def sse_headers_def
      auditSiteWithProgress_def fetchHTML_def truthy_def or_empty_def events_def emitted_def
      emitProgress_def is_progress_def offline_def)

text \<open>
  C2, amended: when the fetch of the page fails, the audit emits the progress events
  \<open>Fetching HTML...\<close> and \<open>Failed to fetch HTML.\<close>, one before and one after the request, and
  returns null; the handler that has constructed the audit (the inline one) writes these
  two progress events and then the error event \<open>Audit failed.\<close>, ends the response after
  it and writes no results event.
\<close>

theorem fetch_failure_stream:
  assumes "site \<noteq> []" and "axios_get e site = None"
  shows "auditSiteWithProgress e site
           = (Inr None,
              [Emit ''Fetching HTML...'', HttpGet site, Emit ''Failed to fetch HTML.''])
         \<and> events (audit_route_inline e (Some site))
           = [Progress ''Fetching HTML...'', Progress ''Failed to fetch HTML.'',
              Error ''Audit failed.'']
         \<and> last (audit_route_inline e (Some site)) = ResEnd
         \<and> filter is_results (events (audit_route_inline e (Some site))) = []"
  using assms
  by (simp add: audit_route_inline_def stream_audit_def sse_headers_def
      auditSiteWithProgress_def fetchHTML_def truthy_def or_empty_def events_def
      emitProgress_def is_results_def)

theorem fetch_failure_stream_witness:
  "audit_route_inline offline (Some ''https://example.com'')
     = [ResSetHeader ''Content-Type'' ''text/event-stream'',
        ResSetHeader ''Cache-Control'' ''no-cache'',
        ResSetHeader ''Connection'' ''keep-alive'',
        ResWrite (Progress ''Fetching HTML...''),
        HttpGet ''https://example.com'',
        ResWrite (Progress ''Failed to fetch HTML.''),
        ResWrite (Error ''Audit failed.''),
        ResEnd]
   \<and> fst (auditSiteWithProgress offline ''https://example.com'') = Inr None"
  using fetch_failure_stream [of "''https://example.com''" offline]
  by (simp add: audit_route_inline_def stream_audit_def sse_headers_def
      auditSiteWithProgress_def fetchHTML_def truthy_def or_empty_def emitProgress_def
      offline_def)

subsection \<open>The score\<close>

text \<open>
  C3. The claim: an absent browser SEO score contributes 0. When the seo category is not
  among the Lighthouse results, \<open>generateSEOScore\<close> throws a TypeError instead of
  returning a score. (With the category there, \<open>generateSEOScore_present\<close> gives the
  formula of the claim in doubles, a null score counting as 0, and
  \<open>generateSEOScore_full_marks\<close> the score 100 of the claim's example.)
\<close>

theorem generateSEOScore_seo_missing:
  "generateSEOScore e seo_missing full_marks
     = Inl (TypeError ''Cannot read properties of undefined (reading score)'')"
  by (simp add: generateSEOScore_def seo_missing_def)

text \<open>
  C4. The checklist score is the sum of 20 points for each of: a title that is not empty,
  a meta description that is not empty, an h1 count of exactly 1, a canonical link that is
  not empty, and every image alt text being there and not empty. So it is 100 when all
  five hold and 0 when none holds; without images the fifth holds.
\<close>

theorem onpage_score_checklist:
  "calculateOnPageSEOScore sd =
     (if title sd \<noteq> [] then 20 else 0)
     + (if metaDescription sd \<noteq> [] then 20 else 0)
     + (if h1Count sd = 1 then 20 else 0)
     + (if canonicalLink sd \<noteq> [] then 20 else 0)
     + (if (\<forall>alt \<in> set (imageAltTags sd). present_nonempty alt) then 20 else 0)
   \<and> (title sd \<noteq> [] \<and> metaDescription sd \<noteq> [] \<and> h1Count sd = 1 \<and> canonicalLink sd \<noteq> []
        \<and> (\<forall>alt \<in> set (imageAltTags sd). present_nonempty alt)
      \<longrightarrow> calculateOnPageSEOScore sd = 100)
   \<and> (title sd = [] \<and> metaDescription sd = [] \<and> h1Count sd \<noteq> 1 \<and> canonicalLink sd = []
        \<and> (\<exists>alt \<in> set (imageAltTags sd). \<not> present_nonempty alt)
      \<longrightarrow> calculateOnPageSEOScore sd = 0)
   \<and> (imageAltTags sd = []
      \<longrightarrow> calculateOnPageSEOScore sd =
            (if title sd \<noteq> [] then 20 else 0)
            + (if metaDescription sd \<noteq> [] then 20 else 0)
            + (if h1Count sd = 1 then 20 else 0)
            + (if canonicalLink sd \<noteq> [] then 20 else 0)
            + 20)"
  by (simp add: calculateOnPageSEOScore_def Let_def list_all_iff truthy_present)

theorem onpage_score_checklist_witness:
  "calculateOnPageSEOScore full_marks = 100
   \<and> calculateOnPageSEOScore no_marks = 0
   \<and> calculateOnPageSEOScore (no_marks \<lparr> imageAltTags := [] \<rparr>) = 20"
  using onpage_score_checklist [of full_marks] onpage_score_checklist [of no_marks]
    onpage_score_checklist [of "no_marks \<lparr> imageAltTags := [] \<rparr>"]
  by (simp add: full_marks_def no_marks_def present_nonempty_def)

subsection \<open>The analysis\<close>

text \<open>
  C5. The claim: no sub-check aborts the analysis. A link that \<open>new URL\<close> refuses does: the
  robots and sitemap probes are sent, then the TypeError leaves \<open>findBrokenLinks\<close> and
  \<open>analyzeOnPageSEO\<close> with it. (A null result of \<open>parse()\<close> does the same:
  \<open>calculateReadability_null_parse\<close>. Without these two, no answer of a probe makes the
  analysis fail: \<open>analyzeOnPageSEO_returns\<close>.)
\<close>

theorem analyzeOnPageSEO_throws:
  "analyzeOnPageSEO bad_link ''<a href=http://[>'' ''https://example.com''
     = (Inl (TypeError ''Invalid URL''),
        [HttpGet ''https://example.com/robots.txt'',
         HttpGet ''https://example.com/sitemap.xml''])"
  by (simp add: analyzeOnPageSEO_def checkRobotsTxt_def checkSitemap_def findBrokenLinks_def
      keep_link_def truthy_def or_empty_def startsWith_def bad_link_def offline_def
      link_page_def empty_page_def join_url_def)

text \<open>
  C6. The claim: a document judged not readable gets an empty or absent score. The code
  returns the number 0, which is not the empty string, where the repository's test of the
  analysis expects a string and the TypeScript version of the method returns the empty
  string. (For a document judged readable, \<open>readable_score\<close> and \<open>readable_score_shape\<close>
  give the string, and \<open>calculateReadability_null_parse\<close> the TypeError of a null
  extraction.)
\<close>

theorem unreadable_score_is_zero:
  "isProbablyReaderable offline ''<html></html>'' = False
   \<and> calculateReadability offline ''<html></html>'' = Inr (NumberValue 0)
   \<and> NumberValue 0 \<noteq> StringValue ''''"
  by (simp add: calculateReadability_def offline_def)

subsection \<open>Broken links\<close>

text \<open>
  C7, as claimed: the count runs over every anchor href except those beginning with
  \<open>#\<close>, and counts the probes that fail or return a status that is not a success. For
  one anchor with an empty href, whose resolution is the base URL and whose probe fails,
  that count is 1 and the code counts 0. For one anchor whose link answers 204, that
  count is 0 and the code counts 1.
\<close>

theorem specified_count_differs:
  "fst (findBrokenLinks empty_href ''<a href>'' ''https://example.com'') = Inr 0
   \<and> specified_count empty_href (a_href (cheerio_load empty_href ''<a href>''))
        ''https://example.com'' = 1
   \<and> fst (findBrokenLinks no_content_link ''<a href=/a>'' ''https://example.com'') = Inr 1
   \<and> specified_count no_content_link (a_href (cheerio_load no_content_link ''<a href=/a>''))
        ''https://example.com'' = 0"
  by (simp add: findBrokenLinks_def keep_link_def truthy_def or_empty_def startsWith_def
      specified_count_def empty_href_def no_content_link_def offline_def link_page_def
      empty_page_def join_url_def non_success_def)

text \<open>
  C7, amended: the count runs over the anchor hrefs that are there, are not empty and do
  not begin with \<open>#\<close>. When each of them resolves against the base URL, one GET is sent
  per link, in document order, and the count is the number of links, repetitions
  included, whose probe fails or answers with a status other than 200 (a success other
  than 200 included). A link that fails and occurs \<open>k\<close> times counts \<open>k\<close> times; links
  answering 200, 404 and not at all count 2.
\<close>

theorem broken_link_count:
  "((\<forall>link \<in> set (checked_links (a_href (cheerio_load e html))).
        url_href e link baseUrl = Some (r link))
      \<longrightarrow> findBrokenLinks e html baseUrl =
           (Inr (length (filter (\<lambda>link. probe_fails e (r link))
                           (checked_links (a_href (cheerio_load e html))))),
            map (\<lambda>link. HttpGet (r link)) (checked_links (a_href (cheerio_load e html)))))
   \<and> (checked_links (a_href (cheerio_load e html)) = replicate k A
        \<and> url_href e A baseUrl = Some a \<and> probe_fails e a
      \<longrightarrow> fst (findBrokenLinks e html baseUrl) = Inr k)
   \<and> (a_href (cheerio_load e html) = [Some A, Some B, Some C]
        \<and> A \<noteq> [] \<and> hd A \<noteq> CHR ''#'' \<and> B \<noteq> [] \<and> hd B \<noteq> CHR ''#''
        \<and> C \<noteq> [] \<and> hd C \<noteq> CHR ''#''
        \<and> url_href e A baseUrl = Some a \<and> url_href e B baseUrl = Some b
        \<and> url_href e C baseUrl = Some c
        \<and> axios_get e a = Some ra \<and> status ra = 200
        \<and> axios_get e b = Some rb \<and> status rb = 404
        \<and> axios_get e c = None
      \<longrightarrow> fst (findBrokenLinks e html baseUrl) = Inr 2)"
proof (intro conjI impI)
  assume "\<forall>link \<in> set (checked_links (a_href (cheerio_load e html))).
            url_href e link baseUrl = Some (r link)"
  then show "findBrokenLinks e html baseUrl =
           (Inr (length (filter (\<lambda>link. probe_fails e (r link))
                           (checked_links (a_href (cheerio_load e html))))),
            map (\<lambda>link. HttpGet (r link)) (checked_links (a_href (cheerio_load e html))))"
    by (rule findBrokenLinks_count)
next
  assume h: "checked_links (a_href (cheerio_load e html)) = replicate k A
        \<and> url_href e A baseUrl = Some a \<and> probe_fails e a"
  then have "\<forall>link \<in> set (checked_links (a_href (cheerio_load e html))).
               url_href e link baseUrl = Some ((\<lambda>l. a) link)"
    by simp
  from findBrokenLinks_count [OF this] h show "fst (findBrokenLinks e html baseUrl) = Inr k"
    by simp
next
  assume h: "a_href (cheerio_load e html) = [Some A, Some B, Some C]
        \<and> A \<noteq> [] \<and> hd A \<noteq> CHR ''#'' \<and> B \<noteq> [] \<and> hd B \<noteq> CHR ''#''
        \<and> C \<noteq> [] \<and> hd C \<noteq> CHR ''#''
        \<and> url_href e A baseUrl = Some a \<and> url_href e B baseUrl = Some b
        \<and> url_href e C baseUrl = Some c
        \<and> axios_get e a = Some ra \<and> status ra = 200
        \<and> axios_get e b = Some rb \<and> status rb = 404
        \<and> axios_get e c = None"
  have "map or_empty (filter keep_link (a_href (cheerio_load e html))) = [A, B, C]"
    unfolding kept_links using h by simp
  then show "fst (findBrokenLinks e html baseUrl) = Inr 2"
    unfolding findBrokenLinks_def Let_def using h by simp
qed

theorem broken_link_count_witness:
  "findBrokenLinks seven_anchors ''<html>'' ''https://example.com''
     = (Inr 3, [HttpGet ''https://example.com/a'', HttpGet ''https://example.com/b'',
                HttpGet ''https://example.com/c'', HttpGet ''https://example.com/c''])
   \<and> fst (findBrokenLinks repeated_link ''<html>'' ''https://example.com'') = Inr 3
   \<and> fst (findBrokenLinks three_links ''<html>'' ''https://example.com'') = Inr 2"
  using broken_link_count [of seven_anchors "''<html>''" "''https://example.com''"
          "\<lambda>link. ''https://example.com'' @ link"]
        broken_link_count [where e = repeated_link and html = "''<html>''"
          and baseUrl = "''https://example.com''" and k = 3 and A = "''/c''"
          and a = "''https://example.com/c''"]
        broken_link_count [where e = three_links and html = "''<html>''"
          and baseUrl = "''https://example.com''"
          and A = "''/a''" and B = "''/b''" and C = "''/c''"
          and a = "''https://example.com/a''" and b = "''https://example.com/b''"
          and c = "''https://example.com/c''"
          and ra = "\<lparr> status = 200, data = '''' \<rparr>"
          and rb = "\<lparr> status = 404, data = '''' \<rparr>"]
  by (simp add: seven_anchors_def three_links_def repeated_link_def offline_def link_page_def
      empty_page_def join_url_def probe_fails_def)

text \<open>
  C10. An anchor whose href is missing or empty takes no part in the check: the result
  and the requests sent are those of the document without such anchors, and a document
  with no other anchors gives the count 0 and sends no request.
\<close>

theorem missing_or_empty_href_excluded:
  "(a_href (cheerio_load e html') = filter present_nonempty (a_href (cheerio_load e html))
      \<longrightarrow> findBrokenLinks e html' baseUrl = findBrokenLinks e html baseUrl)
   \<and> ((\<forall>h \<in> set (a_href (cheerio_load e html)). \<not> present_nonempty h)
      \<longrightarrow> findBrokenLinks e html baseUrl = (Inr 0, []))"
proof (intro conjI impI)
  assume "a_href (cheerio_load e html') = filter present_nonempty (a_href (cheerio_load e html))"
  then show "findBrokenLinks e html' baseUrl = findBrokenLinks e html baseUrl"
    unfolding findBrokenLinks_def Let_def by (simp only: filter_keep_link_present)
next
  assume a: "\<forall>h \<in> set (a_href (cheerio_load e html)). \<not> present_nonempty h"
  have "filter keep_link (a_href (cheerio_load e html)) = []"
    using a by (auto simp: filter_empty_conv dest: keep_link_present)
  then show "findBrokenLinks e html baseUrl = (Inr 0, [])"
    by (simp add: findBrokenLinks_def)
qed

theorem missing_or_empty_href_excluded_witness:
  "findBrokenLinks two_documents ''second'' ''https://example.com''
     = findBrokenLinks two_documents ''first'' ''https://example.com''
   \<and> findBrokenLinks two_documents ''first'' ''https://example.com''
     = (Inr 0, [HttpGet ''https://example.com/a''])
   \<and> findBrokenLinks empty_href ''<a href>'' ''https://example.com'' = (Inr 0, [])"
  using missing_or_empty_href_excluded
          [of two_documents "''second''" "''first''" "''https://example.com''"]
        missing_or_empty_href_excluded [of empty_href "''<a href>''" "''https://example.com''"]
  by (simp add: two_documents_def empty_href_def offline_def link_page_def empty_page_def
      present_nonempty_def findBrokenLinks_def keep_link_def truthy_def or_empty_def
      startsWith_def join_url_def)

subsection \<open>Keyword density\<close>

text \<open>
  C8, as claimed: a body without words gives a defined result, never NaN. A body of two
  spaces has no words, and the density reported is the string \<open>NaN\<close>, which is no decimal.
\<close>

theorem blank_body_density:
  "body_words plain_text ''  '' = []
   \<and> calculateKeywordDensity plain_text ''  '' = ''NaN''
   \<and> \<not> decimal_2_digits ''NaN''"
  by (simp add: body_words_def calculateKeywordDensity_def plain_text_def offline_def
      empty_page_def js_space_def toFixed2_def decimal_2_digits_def unsigned_2_digits_def
      is_digit_def)

text \<open>
  C8, amended: for every document whose body text has no words, the density is the
  string \<open>NaN\<close>, returned as any other density is (nothing is thrown).
\<close>

theorem keyword_density_no_words:
  assumes "body_words e html = []"
  shows "calculateKeywordDensity e html = ''NaN''"
  using assms by (simp add: density_by_counts toFixed2_def)

theorem keyword_density_no_words_witness:
  "body_words offline ''<html></html>'' = []
   \<and> calculateKeywordDensity offline ''<html></html>'' = ''NaN''"
  using keyword_density_no_words [of offline "''<html></html>''"]
  by (simp add: body_words_def offline_def empty_page_def)

text \<open>
  C9. Two documents whose body texts have the same words, in whatever order, get the same
  density.
\<close>

theorem keyword_density_order_independent:
  assumes "mset (body_words e html1) = mset (body_words e html2)"
  shows "calculateKeywordDensity e html1 = calculateKeywordDensity e html2"
proof -
  let ?K = "\<lambda>word. toLowerCase word = targetKeyword"
  have len: "length (body_words e html1) = length (body_words e html2)"
    using assms by (rule mset_eq_length)
  have "mset (filter ?K (body_words e html1)) = mset (filter ?K (body_words e html2))"
    using assms by (simp only: mset_filter)
  then have "length (filter ?K (body_words e html1)) = length (filter ?K (body_words e html2))"
    by (rule mset_eq_length)
  with len show ?thesis by (simp only: density_by_counts)
qed

theorem keyword_density_order_independent_witness:
  "calculateKeywordDensity plain_text ''an Example page'' =
   calculateKeywordDensity plain_text '' page an   Example''"
  by (rule keyword_density_order_independent)
     (simp add: body_words_def plain_text_def offline_def empty_page_def js_space_def)

end
